theory Spec2Isabelle
  imports Complex_Main
begin

section \<open>The retry-policy engine of \<open>01_retry.js\<close>\<close>

text \<open>
  The module has three parts: the model (a retry status), the primitive policies and the
  combinators, followed by a small simulation driver (\<open>applyPolicy\<close>, \<open>dryRun\<close>).

  A JavaScript \<open>number\<close> that holds a delay is modelled as a \<open>real\<close>; the iteration
  counter, which starts at \<open>0\<close> and is only ever incremented by \<open>1\<close>, as an \<open>int\<close>.
  The value \<open>undefined\<close> of a \<open>number | undefined\<close> is \<open>None\<close>.

  Two expressions of the module compute with numbers, \<open>status.iterNumber + 1\<close> and
  \<open>delay * Math.pow(2, status.iterNumber)\<close>; comparisons, \<open>Math.max\<close> and
  \<open>Math.min\<close> do not round. For these two expressions the arithmetic of IEEE doubles
  (rounding, infinities, \<open>NaN\<close>) is modelled as well, in the definitions named
  \<open>_ieee\<close>, and shown to agree with that of \<open>int\<close> and \<open>real\<close> wherever the
  results are exactly representable.
\<close>

subsection \<open>The model\<close>

record RetryStatus =
  iterNumber :: int
  previousDelay :: "real option"

type_synonym RetryPolicy = "RetryStatus \<Rightarrow> real option"

definition startStatus :: RetryStatus where
  "startStatus = \<lparr>iterNumber = 0, previousDelay = None\<rparr>"

subsection \<open>Primitives\<close>

text \<open>Constant delay with unlimited retries: the returned function ignores its argument.\<close>

definition constantDelay :: "real \<Rightarrow> RetryPolicy" where
  "constantDelay delay = (\<lambda>_. Some delay)"

text \<open>Retry immediately, but only up to \<open>i\<close> times.\<close>

definition limitRetries :: "int \<Rightarrow> RetryPolicy" where
  "limitRetries i = (\<lambda>status. if iterNumber status \<ge> i then None else Some 0)"

text \<open>
  Grow the delay by a factor of two each iteration. \<open>Math.pow(2, k)\<close> at an integer
  \<open>k\<close> is \<open>2 powi k\<close>, which is \<open>2 ^ k\<close> for \<open>k \<ge> 0\<close> and \<open>1 / 2 ^ (- k)\<close> below.
\<close>

definition exponentialBackoff :: "real \<Rightarrow> RetryPolicy" where
  "exponentialBackoff delay = (\<lambda>status. Some (delay * 2 powi (iterNumber status)))"

subsection \<open>Combinators\<close>

text \<open>Set an upper bound for any delay that the given policy directs.\<close>

definition capDelay :: "real \<Rightarrow> RetryPolicy \<Rightarrow> RetryPolicy" where
  "capDelay maxDelay policy = (\<lambda>status.
     let delay = policy status
     in if delay = None then None else Some (min maxDelay (the delay)))"

text \<open>Merge two policies: both are evaluated, \<open>first\<close> before \<open>second\<close>.\<close>

definition concat :: "RetryPolicy \<Rightarrow> RetryPolicy \<Rightarrow> RetryPolicy" where
  "concat second first = (\<lambda>status.
     let delay1 = first status;
         delay2 = second status
     in if delay1 \<noteq> None \<and> delay2 \<noteq> None
        then Some (max (the delay1) (the delay2))
        else None)"

subsection \<open>The simulation driver\<close>

text \<open>Apply a policy on a status to see what the decision would be.\<close>

definition applyPolicy :: "RetryPolicy \<Rightarrow> RetryStatus \<Rightarrow> RetryStatus" where
  "applyPolicy policy status =
     \<lparr>iterNumber = iterNumber status + 1, previousDelay = policy status\<rparr>"

text \<open>
  \<open>dryRun\<close> keeps all intermediate results. Its \<open>while\<close> loop may run forever, so the
  loop is a partial function: \<open>None\<close> is "does not return". The loop reads
  \<open>out[out.length - 1]\<close>; on an empty array that is \<open>undefined\<close>, and reading
  \<open>iterNumber\<close> of it inside \<open>apply\<close> throws a \<open>TypeError\<close>, which is the
  \<open>Inl\<close> result.
\<close>

datatype error = TypeError

partial_function (option) dryRun_loop ::
  "RetryPolicy \<Rightarrow> RetryStatus \<Rightarrow> RetryStatus list \<Rightarrow> (error + RetryStatus list) option" where
  "dryRun_loop policy status out =
     (if previousDelay status \<noteq> None
      then (case out of
              [] \<Rightarrow> Some (Inl TypeError)
            | _ # _ \<Rightarrow>
                (let status' = applyPolicy policy (last out)
                 in dryRun_loop policy status' (out @ [status'])))
      else Some (Inr out))"

definition dryRun :: "RetryPolicy \<Rightarrow> (error + RetryStatus list) option" where
  "dryRun policy =
     (let status = applyPolicy policy startStatus
      in dryRun_loop policy status [status])"

text \<open>
  \<open>pipe(a, f, g, h)\<close> of fp-ts is \<open>h(g(f(a)))\<close>; \<open>myPolicy\<close> is the policy that the
  module builds and prints.
\<close>

definition pipe :: "'a \<Rightarrow> ('a \<Rightarrow> 'b) \<Rightarrow> ('b \<Rightarrow> 'c) \<Rightarrow> ('c \<Rightarrow> 'd) \<Rightarrow> 'd" where
  "pipe a ab bc cd = cd (bc (ab a))"

definition myPolicy :: RetryPolicy where
  "myPolicy = pipe (constantDelay 300)
                   (concat (exponentialBackoff 200))
                   (concat (limitRetries 5))
                   (capDelay 2000)"

subsection \<open>Auxiliary notions for stating the properties of the simulation\<close>

text \<open>
  \<open>statusAt policy k\<close> is the status after \<open>k\<close> applications of the policy to the
  initial status, and \<open>trace policy n\<close> the statuses after \<open>1, \<dots>, n + 1\<close> applications.
\<close>

primrec statusAt :: "RetryPolicy \<Rightarrow> nat \<Rightarrow> RetryStatus" where
  "statusAt policy 0 = startStatus"
| "statusAt policy (Suc k) = applyPolicy policy (statusAt policy k)"

definition trace :: "RetryPolicy \<Rightarrow> nat \<Rightarrow> RetryStatus list" where
  "trace policy n = map (\<lambda>k. statusAt policy (Suc k)) [0..<Suc n]"

subsection \<open>IEEE double arithmetic\<close>

text \<open>
  A JavaScript \<open>number\<close> is an IEEE 754 double: a finite value \<open>m * 2 ^ e\<close> with
  \<open>\<bar>m\<bar> < 2 ^ 53\<close> and \<open>- 1074 \<le> e \<le> 971\<close>, one of the two infinities, or \<open>NaN\<close>.
  The two zeros are not told apart (\<open>===\<close> does not tell them apart either).
\<close>

datatype number = Finite real | PosInf | NegInf | NaN

definition is_double :: "real \<Rightarrow> bool" where
  "is_double x \<longleftrightarrow>
     (\<exists>m e. \<bar>m\<bar> < 2 ^ 53 \<and> - 1074 \<le> e \<and> e \<le> 971 \<and> x = of_int m * 2 powi e)"

text \<open>
  Rounding to the nearest double, ties to the even significand. The doubles around a
  real \<open>x \<noteq> 0\<close> are the multiples of \<open>2 ^ ulp_exponent x\<close>; a rounded magnitude of
  \<open>2 ^ 1024\<close> or more is an infinity.
\<close>

definition ulp_exponent :: "real \<Rightarrow> int" where
  "ulp_exponent x = max (\<lfloor>log 2 \<bar>x\<bar>\<rfloor> - 52) (- 1074)"

definition round_half_even :: "real \<Rightarrow> int" where
  "round_half_even y =
     (let f = \<lfloor>y\<rfloor>; r = y - of_int f
      in if r < 1 / 2 then f
         else if 1 / 2 < r then f + 1
         else if even f then f else f + 1)"

definition round_double :: "real \<Rightarrow> number" where
  "round_double x =
     (if x = 0 then Finite 0
      else let u = 2 powi ulp_exponent x;
               y = of_int (round_half_even (x / u)) * u
           in if 2 ^ 1024 \<le> \<bar>y\<bar> then (if 0 < x then PosInf else NegInf)
              else Finite y)"

text \<open>The operators \<open>+\<close> and \<open>*\<close> on numbers, and \<open>Math.pow(2, x)\<close>.\<close>

fun js_add :: "number \<Rightarrow> number \<Rightarrow> number" where
  "js_add NaN _ = NaN"
| "js_add _ NaN = NaN"
| "js_add PosInf NegInf = NaN"
| "js_add NegInf PosInf = NaN"
| "js_add PosInf _ = PosInf"
| "js_add _ PosInf = PosInf"
| "js_add NegInf _ = NegInf"
| "js_add _ NegInf = NegInf"
| "js_add (Finite x) (Finite y) = round_double (x + y)"

fun js_mul :: "number \<Rightarrow> number \<Rightarrow> number" where
  "js_mul NaN _ = NaN"
| "js_mul _ NaN = NaN"
| "js_mul PosInf PosInf = PosInf"
| "js_mul PosInf NegInf = NegInf"
| "js_mul NegInf PosInf = NegInf"
| "js_mul NegInf NegInf = PosInf"
| "js_mul PosInf (Finite y) = (if y = 0 then NaN else if 0 < y then PosInf else NegInf)"
| "js_mul NegInf (Finite y) = (if y = 0 then NaN else if 0 < y then NegInf else PosInf)"
| "js_mul (Finite x) PosInf = (if x = 0 then NaN else if 0 < x then PosInf else NegInf)"
| "js_mul (Finite x) NegInf = (if x = 0 then NaN else if 0 < x then NegInf else PosInf)"
| "js_mul (Finite x) (Finite y) = round_double (x * y)"

fun Math_pow2 :: "number \<Rightarrow> number" where
  "Math_pow2 NaN = NaN"
| "Math_pow2 PosInf = PosInf"
| "Math_pow2 NegInf = Finite 0"
| "Math_pow2 (Finite x) = round_double (2 powr x)"

text \<open>
  The status, \<open>constantDelay\<close>, \<open>exponentialBackoff\<close> and \<open>applyPolicy\<close> with the
  arithmetic of doubles. Below, these are shown to agree with the definitions over
  \<open>int\<close> and \<open>real\<close> as long as the counter stays within \<open>2 ^ 53\<close> and the delay is
  a double.
\<close>

record RetryStatus_ieee =
  iterNumber_ieee :: number
  previousDelay_ieee :: "number option"

type_synonym RetryPolicy_ieee = "RetryStatus_ieee \<Rightarrow> number option"

definition constantDelay_ieee :: "number \<Rightarrow> RetryPolicy_ieee" where
  "constantDelay_ieee delay = (\<lambda>_. Some delay)"

definition exponentialBackoff_ieee :: "number \<Rightarrow> RetryPolicy_ieee" where
  "exponentialBackoff_ieee delay =
     (\<lambda>status. Some (js_mul delay (Math_pow2 (iterNumber_ieee status))))"

definition applyPolicy_ieee :: "RetryPolicy_ieee \<Rightarrow> RetryStatus_ieee \<Rightarrow> RetryStatus_ieee" where
  "applyPolicy_ieee policy status =
     \<lparr>iterNumber_ieee = js_add (iterNumber_ieee status) (Finite 1),
      previousDelay_ieee = policy status\<rparr>"

subsection \<open>Facts about the simulated statuses\<close>

lemma statusAt_iterNumber: "iterNumber (statusAt policy k) = int k"
  by (induction k) (simp_all add: startStatus_def applyPolicy_def)

lemma statusAt_previousDelay:
  "previousDelay (statusAt policy (Suc k)) = policy (statusAt policy k)"
  by (simp add: applyPolicy_def)

lemma statusAt_funpow: "statusAt policy k = (applyPolicy policy ^^ k) startStatus"
  by (induction k) simp_all

lemma funpow_iterNumber: "iterNumber ((applyPolicy policy ^^ k) s) = iterNumber s + int k"
  by (induction k) (simp_all add: applyPolicy_def)

lemma trace_Suc: "trace policy (Suc n) = trace policy n @ [statusAt policy (Suc (Suc n))]"
  by (simp add: trace_def)

lemma trace_last: "last (trace policy n) = statusAt policy (Suc n)"
  by (simp add: trace_def)

lemma trace_nonempty: "trace policy n \<noteq> []"
  by (simp add: trace_def)

lemma trace_length: "length (trace policy n) = Suc n"
  by (simp add: trace_def)

lemma trace_nth: "i \<le> n \<Longrightarrow> trace policy n ! i = statusAt policy (Suc i)"
proof -
  assume "i \<le> n"
  then have "i < length [0..<Suc n]" by simp
  then have "trace policy n ! i = statusAt policy (Suc ([0..<Suc n] ! i))"
    unfolding trace_def by (rule nth_map)
  also have "[0..<Suc n] ! i = i"
    using \<open>i \<le> n\<close> by (metis add_0 le_imp_less_Suc nth_upt)
  finally show ?thesis .
qed

lemma first_stop:
  assumes "policy (statusAt policy k) = None"
  shows "\<exists>n\<le>k. policy (statusAt policy n) = None \<and> (\<forall>j<n. policy (statusAt policy j) \<noteq> None)"
proof -
  let ?P = "\<lambda>i. policy (statusAt policy i) = None"
  have "?P (LEAST i. ?P i)" using assms by (rule LeastI)
  moreover have "(LEAST i. ?P i) \<le> k" using assms by (rule Least_le)
  moreover have "\<forall>j<(LEAST i. ?P i). \<not> ?P j" using not_less_Least by blast
  ultimately show ?thesis by blast
qed

subsection \<open>The loop of \<open>dryRun\<close>\<close>

text \<open>
  Total correctness: when the policy first says "stop" at the status reached after \<open>n\<close>
  steps, the loop entered after \<open>m \<le> n\<close> further steps returns the trace of length
  \<open>n + 1\<close>. The induction is on the number \<open>n - m\<close> of iterations still to run.
\<close>

lemma dryRun_loop_trace:
  assumes stop: "policy (statusAt policy n) = None"
    and first: "\<forall>j<n. policy (statusAt policy j) \<noteq> None"
  shows "m \<le> n \<Longrightarrow>
    dryRun_loop policy (statusAt policy (Suc m)) (trace policy m) = Some (Inr (trace policy n))"
proof (induction "n - m" arbitrary: m)
  case 0
  then have "m = n" by simp
  with stop show ?case
    by (subst dryRun_loop.simps) (simp add: applyPolicy_def)
next
  case (Suc d)
  then have lt: "m < n" and d: "d = n - Suc m" and le: "Suc m \<le> n" by simp_all
  from first lt have go: "previousDelay (statusAt policy (Suc m)) \<noteq> None"
    by (simp add: applyPolicy_def)
  obtain x xs where tr: "trace policy m = x # xs"
    using trace_nonempty [of policy m] by (cases "trace policy m") auto
  have "dryRun_loop policy (statusAt policy (Suc m)) (trace policy m) =
        dryRun_loop policy (statusAt policy (Suc (Suc m))) (trace policy (Suc m))"
    apply (subst dryRun_loop.simps)
    using go tr trace_last [of policy m] trace_Suc [of policy m]
    by (simp add: Let_def)
  also have "\<dots> = Some (Inr (trace policy n))"
    using Suc.hyps(1) [OF d le] .
  finally show ?case .
qed

lemma dryRun_trace:
  assumes stop: "policy (statusAt policy n) = None"
    and first: "\<forall>j<n. policy (statusAt policy j) \<noteq> None"
  shows "dryRun policy = Some (Inr (trace policy n))"
proof -
  have "trace policy 0 = [statusAt policy (Suc 0)]" by (simp add: trace_def)
  then show ?thesis
    using dryRun_loop_trace [OF stop first, of 0] by (simp add: dryRun_def Let_def)
qed

text \<open>
  Partial correctness, by the fixpoint induction rule of the loop: a run that returns was
  started on a policy that says "stop" somewhere along the simulation.
\<close>

lemma dryRun_loop_stops:
  assumes run: "dryRun_loop policy status out = Some r"
  shows "last out = status \<Longrightarrow> status = statusAt policy (Suc m) \<Longrightarrow> out \<noteq> [] \<Longrightarrow>
     \<exists>k. policy (statusAt policy k) = None"
proof (induction arbitrary: m rule: dryRun_loop.raw_induct [OF _ run])
  case (1 loop policy status out r)
  show ?case
  proof (cases "previousDelay status = None")
    case True
    with "1.prems" have "policy (statusAt policy m) = None" by (simp add: applyPolicy_def)
    then show ?thesis ..
  next
    case False
    from "1.prems" obtain x xs where out: "out = x # xs"
      by (cases out) auto
    define s where "s = applyPolicy policy (last out)"
    from False out "1.hyps" have run: "loop policy s (out @ [s]) = Some r"
      by (simp add: Let_def s_def)
    have "s = statusAt policy (Suc (Suc m))" using "1.prems" by (simp add: s_def)
    from "1.IH" [OF run _ this] show ?thesis by simp
  qed
qed

lemma dryRun_stops:
  assumes "dryRun policy = Some r"
  shows "\<exists>k. policy (statusAt policy k) = None"
  using assms
    dryRun_loop_stops [of policy "statusAt policy (Suc 0)" "[statusAt policy (Suc 0)]" r 0]
  by (simp add: dryRun_def Let_def)

text \<open>Every result of \<open>dryRun\<close> is the trace up to the first "stop"; it never throws.\<close>

lemma dryRun_returns:
  assumes "dryRun policy = Some r"
  shows "\<exists>n. policy (statusAt policy n) = None \<and> (\<forall>j<n. policy (statusAt policy j) \<noteq> None)
           \<and> r = Inr (trace policy n)"
proof -
  from assms obtain k where "policy (statusAt policy k) = None"
    using dryRun_stops by blast
  then obtain n where n: "policy (statusAt policy n) = None"
      "\<forall>j<n. policy (statusAt policy j) \<noteq> None"
    using first_stop by blast
  then have "dryRun policy = Some (Inr (trace policy n))" by (rule dryRun_trace)
  with assms have "r = Inr (trace policy n)" by simp
  with n show ?thesis by blast
qed

text \<open>
  So \<open>dryRun\<close> returns exactly for the policies that say "stop" somewhere along the
  simulation; on \<open>constantDelay\<close> alone it runs forever.
\<close>

lemma dryRun_returns_iff:
  "(\<exists>r. dryRun policy = Some r) \<longleftrightarrow> (\<exists>k. policy (statusAt policy k) = None)"
proof
  assume "\<exists>r. dryRun policy = Some r"
  then show "\<exists>k. policy (statusAt policy k) = None"
    using dryRun_stops by blast
next
  assume "\<exists>k. policy (statusAt policy k) = None"
  then obtain n where "policy (statusAt policy n) = None"
      "\<forall>j<n. policy (statusAt policy j) \<noteq> None"
    using first_stop by blast
  then have "dryRun policy = Some (Inr (trace policy n))" by (rule dryRun_trace)
  then show "\<exists>r. dryRun policy = Some r" ..
qed

lemma dryRun_constantDelay: "dryRun (constantDelay d) = None"
proof (cases "dryRun (constantDelay d)")
  case None
  then show ?thesis .
next
  case (Some r)
  then have "\<exists>k. constantDelay d (statusAt (constantDelay d) k) = None"
    by (rule dryRun_stops)
  then show ?thesis by (simp add: constantDelay_def)
qed

subsection \<open>Facts about rounding\<close>

lemma round_half_even_of_int: "round_half_even (of_int z) = z"
  by (simp add: round_half_even_def)

lemma ulp_exponent_le:
  assumes "x \<noteq> 0" and "\<bar>x\<bar> < 2 powi (53 + e)" and "- 1074 \<le> e"
  shows "ulp_exponent x \<le> e"
proof -
  have pos: "0 < \<bar>x\<bar>" using assms(1) by simp
  have "2 powr (of_int (53 + e)) = (2::real) powi (53 + e)"
    by (rule powr_real_of_int') simp_all
  with assms(2) have "\<bar>x\<bar> < 2 powr (of_int (53 + e))"
    by simp
  then have "log 2 \<bar>x\<bar> < of_int (53 + e)"
    using pos by (subst log_less_iff) simp_all
  then have "\<lfloor>log 2 \<bar>x\<bar>\<rfloor> < 53 + e"
    by (subst floor_less_iff)
  with assms(3) show ?thesis by (simp add: ulp_exponent_def)
qed

lemma round_double_exact:
  assumes "is_double x"
  shows "round_double x = Finite x"
proof (cases "x = 0")
  case True
  then show ?thesis by (simp add: round_double_def)
next
  case False
  from assms obtain m e where me: "\<bar>m\<bar> < 2 ^ 53" "- 1074 \<le> e" "e \<le> 971"
      "x = of_int m * 2 powi e"
    unfolding is_double_def by blast
  have abs: "\<bar>x\<bar> = of_int \<bar>m\<bar> * 2 powi e"
    by (simp add: me(4) abs_mult)
  have "of_int \<bar>m\<bar> < (2::real) ^ 53"
    using me(1) by (metis of_int_less_numeral_power_cancel_iff)
  then have lt: "\<bar>x\<bar> < 2 powi (53 + e)"
    by (simp add: abs power_int_add)
  define u where "u = ulp_exponent x"
  have ule: "u \<le> e" unfolding u_def using False lt me(2) by (rule ulp_exponent_le)
  have "x / 2 powi u = of_int m * 2 powi (e - u)"
    by (simp add: me(4) power_int_diff)
  also have "2 powi (e - u) = (2::real) ^ nat (e - u)"
    using ule by (simp add: power_int_def)
  finally have quot: "x / 2 powi u = of_int (m * 2 ^ nat (e - u))"
    by simp
  have restore: "of_int (round_half_even (x / 2 powi u)) * 2 powi u = x"
    unfolding quot round_half_even_of_int using quot by (simp add: field_simps)
  have "2 powi (53 + e) \<le> (2::real) powi 1024"
    using me(3) by (intro power_int_increasing) simp_all
  with lt have "\<bar>x\<bar> < 2 ^ 1024" by simp
  with False restore show ?thesis
    by (simp add: round_double_def Let_def u_def)
qed


lemma is_double_of_int:
  assumes "\<bar>z\<bar> \<le> 2 ^ 53"
  shows "is_double (of_int z)"
proof (cases "\<bar>z\<bar> < 2 ^ 53")
  case True
  then have "\<bar>z\<bar> < 2 ^ 53 \<and> (- 1074::int) \<le> 0 \<and> (0::int) \<le> 971 \<and>
      (of_int z :: real) = of_int z * 2 powi 0"
    by simp
  then show ?thesis unfolding is_double_def by blast
next
  case False
  with assms have "\<bar>z\<bar> = 2 ^ 53" by simp
  then have "z = 2 ^ 52 * 2 \<or> z = - (2 ^ 52) * 2" by (simp add: abs_if split: if_splits)
  then have "\<exists>m::int. \<bar>m\<bar> < 2 ^ 53 \<and> (of_int z :: real) = of_int m * 2 powi 1"
  proof
    assume "z = 2 ^ 52 * 2"
    then have "\<bar>2 ^ 52 :: int\<bar> < 2 ^ 53 \<and> (of_int z :: real) = of_int (2 ^ 52) * 2 powi 1"
      by simp
    then show ?thesis by blast
  next
    assume "z = - (2 ^ 52) * 2"
    then have "\<bar>- (2 ^ 52) :: int\<bar> < 2 ^ 53 \<and>
        (of_int z :: real) = of_int (- (2 ^ 52)) * 2 powi 1"
      by simp
    then show ?thesis by blast
  qed
  then obtain m :: int where "\<bar>m\<bar> < 2 ^ 53 \<and> (- 1074::int) \<le> 1 \<and> (1::int) \<le> 971 \<and>
      (of_int z :: real) = of_int m * 2 powi 1"
    by auto
  then show ?thesis unfolding is_double_def by blast
qed

lemma is_double_pow2:
  assumes "- 1074 \<le> k" and "k \<le> 1023"
  shows "is_double (2 powi k)"
proof (cases "k \<le> 971")
  case True
  with assms(1) have "\<bar>1::int\<bar> < 2 ^ 53 \<and> - 1074 \<le> k \<and> k \<le> 971 \<and>
      (2::real) powi k = of_int 1 * 2 powi k"
    by simp
  then show ?thesis unfolding is_double_def by blast
next
  case False
  define j where "j = nat (k - 971)"
  from False assms(2) have j: "j \<le> 52" and k: "k = 971 + int j"
    by (simp_all add: j_def)
  have "(2::int) ^ j \<le> 2 ^ 52" using j by (intro power_increasing) simp_all
  then have small: "\<bar>2 ^ j :: int\<bar> < 2 ^ 53" by simp
  have "(2::real) powi k = 2 powi (int j) * 2 powi 971"
    unfolding k by (subst power_int_add) simp_all
  then have "(2::real) powi k = of_int (2 ^ j) * 2 powi 971"
    by simp
  with small have "\<bar>2 ^ j :: int\<bar> < 2 ^ 53 \<and> (- 1074::int) \<le> 971 \<and> (971::int) \<le> 971 \<and>
      (2::real) powi k = of_int (2 ^ j) * 2 powi 971"
    by simp
  then show ?thesis unfolding is_double_def by blast
qed

lemma Math_pow2_exact:
  assumes "- 1074 \<le> k" and "k \<le> 1023"
  shows "Math_pow2 (Finite (of_int k)) = Finite (2 powi k)"
proof -
  have "2 powr (of_int k) = (2::real) powi k"
    by (rule powr_real_of_int') simp_all
  then show ?thesis
    using round_double_exact [OF is_double_pow2 [OF assms]] by simp
qed

lemma Math_pow2_overflow:
  assumes "1024 \<le> k"
  shows "Math_pow2 (Finite (of_int k)) = PosInf"
proof -
  define x :: real where "x = 2 powi k"
  have powr: "2 powr (of_int k) = x"
    unfolding x_def by (rule powr_real_of_int') simp_all
  have pos: "0 < x" by (simp add: x_def)
  have "log 2 x = of_int k"
    using powr by (metis log_powr_cancel one_less_numeral_iff semiring_norm(76) zero_less_numeral
        less_numeral_extra(4) not_numeral_less_one)
  then have ulp: "ulp_exponent x = k - 52"
    using pos assms by (simp add: ulp_exponent_def)
  have "x = 2 powi 52 * 2 powi (k - 52)"
    unfolding x_def by (subst power_int_add [symmetric]) simp_all
  then have quot: "x / 2 powi (k - 52) = of_int (2 ^ 52)"
    by simp
  have y: "of_int (round_half_even (x / 2 powi (k - 52))) * 2 powi (k - 52) = x"
    unfolding quot round_half_even_of_int using quot by (simp add: field_simps)
  have "(2::real) powi 1024 \<le> 2 powi k"
    using assms by (intro power_int_increasing) simp_all
  then have "2 ^ 1024 \<le> \<bar>x\<bar>" by (simp add: x_def)
  then have "round_double x = PosInf"
    using pos y by (simp add: round_double_def Let_def ulp)
  then show ?thesis by (simp add: powr)
qed

lemma round_double_tie: "round_double (2 ^ 53 + 1) = Finite (2 ^ 53)"
proof -
  define x :: real where "x = 2 ^ 53 + 1"
  have "\<lfloor>log 2 x\<rfloor> = 53"
    unfolding x_def by (subst floor_log_eq_powr_iff) simp_all
  then have ulp: "ulp_exponent x = 1"
    by (simp add: ulp_exponent_def x_def)
  have fl: "\<lfloor>x / 2\<rfloor> = 2 ^ 52"
    unfolding x_def by (subst floor_eq_iff) simp
  have "round_half_even (x / 2) = 2 ^ 52"
    unfolding round_half_even_def fl by (simp add: Let_def x_def)
  then have "round_double x = Finite (2 ^ 53)"
    unfolding round_double_def ulp by (simp add: Let_def x_def)
  then show ?thesis by (simp add: x_def)
qed

text \<open>
  Within the range of exactly representable results the arithmetic of doubles is that of
  \<open>int\<close> and \<open>real\<close>, which is what the definitions of \<open>applyPolicy\<close> and
  \<open>exponentialBackoff\<close> above compute with.
\<close>

lemma js_add_one:
  assumes "- (2 ^ 53) \<le> n" and "n < 2 ^ 53"
  shows "js_add (Finite (of_int n)) (Finite 1) = Finite (of_int (n + 1))"
proof -
  from assms have "\<bar>n + 1\<bar> \<le> 2 ^ 53" by simp
  then have "is_double (of_int (n + 1))" by (rule is_double_of_int)
  then have "round_double (of_int (n + 1)) = Finite (of_int (n + 1))"
    by (rule round_double_exact)
  then show ?thesis by simp
qed

lemma applyPolicy_ieee_counter:
  "iterNumber_ieee (applyPolicy_ieee policy s) = js_add (iterNumber_ieee s) (Finite 1)"
  by (simp add: applyPolicy_ieee_def)

lemma applyPolicy_ieee_funpow:
  assumes "iterNumber_ieee s = Finite (of_int n)" and "- (2 ^ 53) \<le> n"
  shows "n + int k \<le> 2 ^ 53 \<Longrightarrow>
    iterNumber_ieee ((applyPolicy_ieee policy ^^ k) s) = Finite (of_int (n + int k))"
proof (induction k)
  case 0
  with assms(1) show ?case by simp
next
  case (Suc k)
  then have IH: "iterNumber_ieee ((applyPolicy_ieee policy ^^ k) s) = Finite (of_int (n + int k))"
    by simp
  have "js_add (Finite (of_int (n + int k))) (Finite 1) = Finite (of_int (n + int k + 1))"
    using assms(2) Suc.prems by (intro js_add_one) simp_all
  also have "n + int k + 1 = n + int (Suc k)" by simp
  finally have "js_add (Finite (of_int (n + int k))) (Finite 1) = Finite (of_int (n + int (Suc k)))" .
  with IH show ?case
    by (simp only: funpow.simps o_apply applyPolicy_ieee_counter)
qed

lemma applyPolicy_ieee_agrees:
  assumes "- (2 ^ 53) \<le> iterNumber s" and "iterNumber s < 2 ^ 53"
  shows "iterNumber_ieee (applyPolicy_ieee p
           \<lparr>iterNumber_ieee = Finite (of_int (iterNumber s)), previousDelay_ieee = pd\<rparr>) =
         Finite (of_int (iterNumber (applyPolicy q s)))"
  using js_add_one [OF assms] by (simp add: applyPolicy_ieee_def applyPolicy_def)

lemma exponentialBackoff_ieee_exact:
  assumes "iterNumber_ieee status = Finite (of_int k)" and "- 1074 \<le> k" and "k \<le> 1023"
    and "is_double (x * 2 powi k)"
  shows "exponentialBackoff_ieee (Finite x) status = Some (Finite (x * 2 powi k))"
  using Math_pow2_exact [OF assms(2,3)] round_double_exact [OF assms(4)] assms(1)
  by (simp add: exponentialBackoff_ieee_def)

lemma exponentialBackoff_ieee_agrees:
  assumes "- 1074 \<le> iterNumber s" and "iterNumber s \<le> 1023"
    and "is_double (x * 2 powi iterNumber s)"
  shows "exponentialBackoff_ieee (Finite x)
           \<lparr>iterNumber_ieee = Finite (of_int (iterNumber s)), previousDelay_ieee = pd\<rparr> =
         map_option Finite (exponentialBackoff x s)"
  using exponentialBackoff_ieee_exact [OF _ assms, of _ ] 
  by (simp add: exponentialBackoff_def)

section \<open>The claims\<close>

subsection \<open>Primitives\<close>

text \<open>
  C7. For every integer \<open>n\<close> and every status, \<open>limitRetries n\<close> yields the delay \<open>0\<close>
  when the status's \<open>iterNumber\<close> is below \<open>n\<close>, and "no value" when it is \<open>n\<close> or
  more. The only delay it ever yields is \<open>0\<close>: it is a cutoff on the attempt count.
\<close>

theorem limitRetries_cutoff:
  "(iterNumber status < n \<longrightarrow> limitRetries n status = Some 0) \<and>
   (iterNumber status \<ge> n \<longrightarrow> limitRetries n status = None)"
  by (simp add: limitRetries_def)

theorem limitRetries_cutoff_witness:
  "iterNumber \<lparr>iterNumber = 3, previousDelay = None\<rparr> < 5 \<and>
   limitRetries 5 \<lparr>iterNumber = 3, previousDelay = None\<rparr> = Some 0 \<and>
   iterNumber \<lparr>iterNumber = 5, previousDelay = Some 7\<rparr> \<ge> 5 \<and>
   limitRetries 5 \<lparr>iterNumber = 5, previousDelay = Some 7\<rparr> = None"
  using limitRetries_cutoff [of "\<lparr>iterNumber = 3, previousDelay = None\<rparr>" 5]
    limitRetries_cutoff [of "\<lparr>iterNumber = 5, previousDelay = Some 7\<rparr>" 5]
  by simp

text \<open>
  C8, as the claim states it, fails on doubles. At the status with \<open>iterNumber = 1024\<close>
  (the one \<open>dryRun\<close> reaches after 1024 steps) \<open>Math.pow(2, 1024)\<close> is \<open>Infinity\<close>,
  so \<open>exponentialBackoff(200)\<close> yields \<open>Infinity\<close> and \<open>exponentialBackoff(0)\<close>
  yields \<open>NaN\<close>, neither of which is \<open>d * 2 ^ 1024\<close>.
\<close>

theorem exponentialBackoff_overflow:
  "exponentialBackoff_ieee (Finite 200)
     \<lparr>iterNumber_ieee = Finite 1024, previousDelay_ieee = None\<rparr> = Some PosInf \<and>
   exponentialBackoff_ieee (Finite 200)
     \<lparr>iterNumber_ieee = Finite 1024, previousDelay_ieee = None\<rparr>
     \<noteq> Some (Finite (200 * 2 powi 1024)) \<and>
   exponentialBackoff_ieee (Finite 0)
     \<lparr>iterNumber_ieee = Finite 1024, previousDelay_ieee = None\<rparr> = Some NaN \<and>
   exponentialBackoff_ieee (Finite 0)
     \<lparr>iterNumber_ieee = Finite 1024, previousDelay_ieee = None\<rparr>
     \<noteq> Some (Finite (0 * 2 powi 1024))"
proof -
  have "Math_pow2 (Finite (of_int 1024)) = PosInf"
    by (rule Math_pow2_overflow) simp
  then have "Math_pow2 (Finite 1024) = PosInf" by simp
  then show ?thesis by (simp add: exponentialBackoff_ieee_def)
qed

text \<open>
  C8, amended. For every \<open>d\<close> and every status, \<open>exponentialBackoff d\<close> yields a
  value, never "no value". When the status's \<open>iterNumber\<close> is an integer \<open>k\<close> with
  \<open>- 1074 \<le> k \<le> 1023\<close> and \<open>d * 2 ^ k\<close> is a finite double (the product neither
  overflows nor loses bits to underflow), the value is exactly \<open>d * 2 ^ k\<close>, for
  \<open>d \<ge> 0\<close> as for \<open>d < 0\<close>.
\<close>

theorem exponentialBackoff_ieee_value:
  "exponentialBackoff_ieee d status \<noteq> None \<and>
   (iterNumber_ieee status = Finite (of_int k) \<and> - 1074 \<le> k \<and> k \<le> 1023 \<and>
    is_double (x * 2 powi k) \<longrightarrow>
      exponentialBackoff_ieee (Finite x) status = Some (Finite (x * 2 powi k)))"
  using exponentialBackoff_ieee_exact [of status k x]
  by (simp add: exponentialBackoff_ieee_def)

theorem exponentialBackoff_ieee_value_witness:
  "iterNumber_ieee \<lparr>iterNumber_ieee = Finite 4, previousDelay_ieee = Some (Finite 1600)\<rparr>
     = Finite (of_int 4) \<and>
   is_double (200 * 2 powi 4) \<and>
   exponentialBackoff_ieee (Finite 200)
     \<lparr>iterNumber_ieee = Finite 4, previousDelay_ieee = Some (Finite 1600)\<rparr>
     = Some (Finite 3200)"
proof -
  have "is_double (of_int 3200)" by (rule is_double_of_int) simp
  then have dbl: "is_double (200 * 2 powi 4)" by simp
  from dbl exponentialBackoff_ieee_value [of "Finite 200"
      "\<lparr>iterNumber_ieee = Finite 4, previousDelay_ieee = Some (Finite 1600)\<rparr>" 4 200]
  show ?thesis by simp
qed

subsection \<open>Combinators\<close>

text \<open>
  C4. For every bound \<open>m\<close>, policy \<open>p\<close> and status \<open>s\<close>: \<open>capDelay m p s\<close> is
  "no value" exactly when \<open>p s\<close> is, and when \<open>p s\<close> is the delay \<open>d\<close> it is the
  delay \<open>min m d\<close>. The cap never turns a stop into a delay.
\<close>

theorem capDelay_clamp:
  "(capDelay m p s = None \<longleftrightarrow> p s = None) \<and>
   (p s = Some d \<longrightarrow> capDelay m p s = Some (min m d))"
  by (simp add: capDelay_def Let_def)

theorem capDelay_clamp_witness:
  "exponentialBackoff 200 \<lparr>iterNumber = 4, previousDelay = None\<rparr> = Some 3200 \<and>
   capDelay 2000 (exponentialBackoff 200) \<lparr>iterNumber = 4, previousDelay = None\<rparr> = Some 2000 \<and>
   limitRetries 5 \<lparr>iterNumber = 5, previousDelay = None\<rparr> = None \<and>
   capDelay 2000 (limitRetries 5) \<lparr>iterNumber = 5, previousDelay = None\<rparr> = None"
  using capDelay_clamp [of 2000 "exponentialBackoff 200"
      "\<lparr>iterNumber = 4, previousDelay = None\<rparr>" 3200]
    capDelay_clamp [of 2000 "limitRetries 5" "\<lparr>iterNumber = 5, previousDelay = None\<rparr>"]
  by (simp add: exponentialBackoff_def limitRetries_def)

text \<open>
  C9. \<open>capDelay\<close> is idempotent: capping twice with the same bound is capping once.
\<close>

theorem capDelay_idempotent:
  "capDelay m (capDelay m p) s = capDelay m p s"
  by (simp add: capDelay_def Let_def)

text \<open>
  C2. For all policies \<open>first\<close> and \<open>second\<close> and every status: when both yield a
  delay, \<open>concat second first\<close> yields the maximum of the two; when either yields
  "no value", so does \<open>concat second first\<close>.
\<close>

theorem concat_merge:
  "(first status = Some d1 \<and> second status = Some d2 \<longrightarrow>
      concat second first status = Some (max d1 d2)) \<and>
   (first status = None \<or> second status = None \<longrightarrow>
      concat second first status = None)"
  by (auto simp add: concat_def Let_def)

theorem concat_merge_witness:
  "constantDelay 300 \<lparr>iterNumber = 1, previousDelay = Some 300\<rparr> = Some 300 \<and>
   exponentialBackoff 200 \<lparr>iterNumber = 1, previousDelay = Some 300\<rparr> = Some 400 \<and>
   concat (exponentialBackoff 200) (constantDelay 300)
     \<lparr>iterNumber = 1, previousDelay = Some 300\<rparr> = Some 400 \<and>
   limitRetries 1 \<lparr>iterNumber = 1, previousDelay = Some 300\<rparr> = None \<and>
   concat (limitRetries 1) (constantDelay 300)
     \<lparr>iterNumber = 1, previousDelay = Some 300\<rparr> = None"
  using concat_merge [of "constantDelay 300" "\<lparr>iterNumber = 1, previousDelay = Some 300\<rparr>"
      300 "exponentialBackoff 200" 400]
    concat_merge [of "constantDelay 300" "\<lparr>iterNumber = 1, previousDelay = Some 300\<rparr>"
      300 "limitRetries 1" 0]
  by (simp add: constantDelay_def exponentialBackoff_def limitRetries_def)

text \<open>
  C3. \<open>concat\<close> is associative and commutative at every status. A "no value" of
  either side makes the merge "no value" in both argument orders, and two delays merge
  to their maximum in both argument orders.
\<close>

theorem concat_assoc_comm:
  "concat c (concat b a) s = concat (concat c b) a s \<and>
   concat b a s = concat a b s \<and>
   (a s = None \<or> b s = None \<longrightarrow> concat b a s = None \<and> concat a b s = None) \<and>
   (a s = Some x \<and> b s = Some y \<longrightarrow>
      concat b a s = Some (max x y) \<and> concat a b s = Some (max x y))"
  by (auto simp add: concat_def Let_def max.commute max.assoc)

theorem concat_assoc_comm_witness:
  "concat (limitRetries 5) (concat (exponentialBackoff 200) (constantDelay 300)) startStatus =
     concat (concat (limitRetries 5) (exponentialBackoff 200)) (constantDelay 300) startStatus \<and>
   concat (exponentialBackoff 200) (constantDelay 300) startStatus = Some 300 \<and>
   concat (constantDelay 300) (exponentialBackoff 200) startStatus = Some 300 \<and>
   concat (limitRetries 0) (constantDelay 300) startStatus = None \<and>
   concat (constantDelay 300) (limitRetries 0) startStatus = None"
  using concat_assoc_comm [of "limitRetries 5" "exponentialBackoff 200" "constantDelay 300"
      startStatus 300 200]
    concat_assoc_comm [of "limitRetries 5" "limitRetries 0" "constantDelay 300"
      startStatus 300 0]
  by (simp add: constantDelay_def exponentialBackoff_def limitRetries_def startStatus_def)

subsection \<open>The simulation driver\<close>

text \<open>
  C6, as the claim states it, fails on doubles. At a status whose \<open>iterNumber\<close> is
  \<open>2 ^ 53\<close> the sum \<open>iterNumber + 1\<close> rounds back to \<open>2 ^ 53\<close>: the counter of the
  new status is that of the old one, not one more.
\<close>

theorem applyPolicy_counter_stuck:
  "iterNumber_ieee (applyPolicy_ieee (constantDelay_ieee (Finite 300))
     \<lparr>iterNumber_ieee = Finite (2 ^ 53), previousDelay_ieee = None\<rparr>) = Finite (2 ^ 53) \<and>
   iterNumber_ieee (applyPolicy_ieee (constantDelay_ieee (Finite 300))
     \<lparr>iterNumber_ieee = Finite (2 ^ 53), previousDelay_ieee = None\<rparr>) \<noteq> Finite (2 ^ 53 + 1)"
  using round_double_tie by (simp add: applyPolicy_ieee_def)

text \<open>
  C6, amended. For every policy and every status \<open>s\<close> whose \<open>iterNumber\<close> is an
  integer \<open>n\<close> with \<open>- 2 ^ 53 \<le> n < 2 ^ 53\<close>, \<open>applyPolicy policy s\<close> is the status
  whose \<open>iterNumber\<close> is \<open>n + 1\<close> and whose \<open>previousDelay\<close> is the decision
  \<open>policy s\<close>; \<open>s\<close> itself is a value and stays what it was. Hence \<open>k\<close> simulation
  steps from such a status add exactly \<open>k\<close> to \<open>iterNumber\<close> as long as
  \<open>n + k \<le> 2 ^ 53\<close>, and in every sequence that \<open>dryRun\<close> returns each element's
  \<open>iterNumber\<close> is its predecessor's plus one, so the sequence of counters is
  non-decreasing.
\<close>

theorem applyPolicy_ieee_step:
  "(iterNumber_ieee s = Finite (of_int n) \<and> - (2 ^ 53) \<le> n \<and> n < 2 ^ 53 \<longrightarrow>
      applyPolicy_ieee policy s =
        \<lparr>iterNumber_ieee = Finite (of_int (n + 1)), previousDelay_ieee = policy s\<rparr>) \<and>
   (iterNumber_ieee s = Finite (of_int n) \<and> - (2 ^ 53) \<le> n \<and> n + int k \<le> 2 ^ 53 \<longrightarrow>
      iterNumber_ieee ((applyPolicy_ieee policy ^^ k) s) = Finite (of_int (n + int k))) \<and>
   (dryRun p = Some (Inr out) \<longrightarrow>
      (\<forall>i. Suc i < length out \<longrightarrow> iterNumber (out ! Suc i) = iterNumber (out ! i) + 1) \<and>
      sorted (map iterNumber out))"
proof (intro conjI impI)
  assume "iterNumber_ieee s = Finite (of_int n) \<and> - (2 ^ 53) \<le> n \<and> n < 2 ^ 53"
  then show "applyPolicy_ieee policy s =
        \<lparr>iterNumber_ieee = Finite (of_int (n + 1)), previousDelay_ieee = policy s\<rparr>"
    using js_add_one [of n] by (simp add: applyPolicy_ieee_def)
next
  assume "iterNumber_ieee s = Finite (of_int n) \<and> - (2 ^ 53) \<le> n \<and> n + int k \<le> 2 ^ 53"
  then show "iterNumber_ieee ((applyPolicy_ieee policy ^^ k) s) = Finite (of_int (n + int k))"
    using applyPolicy_ieee_funpow [of s n k policy] by simp
next
  assume "dryRun p = Some (Inr out)"
  then obtain m where out: "out = trace p m"
    using dryRun_returns by blast
  have nth: "iterNumber (out ! i) = int i + 1" if "i < length out" for i
    using that by (simp add: out trace_length trace_nth statusAt_iterNumber del: statusAt.simps)
  show "\<forall>i. Suc i < length out \<longrightarrow> iterNumber (out ! Suc i) = iterNumber (out ! i) + 1"
    by (simp add: nth)
  show "sorted (map iterNumber out)"
    by (simp add: sorted_iff_nth_mono nth)
qed

theorem applyPolicy_ieee_step_witness:
  "iterNumber_ieee \<lparr>iterNumber_ieee = Finite 0, previousDelay_ieee = None\<rparr>
     = Finite (of_int 0) \<and>
   applyPolicy_ieee (constantDelay_ieee (Finite 300))
     \<lparr>iterNumber_ieee = Finite 0, previousDelay_ieee = None\<rparr>
     = \<lparr>iterNumber_ieee = Finite 1, previousDelay_ieee = Some (Finite 300)\<rparr> \<and>
   iterNumber_ieee ((applyPolicy_ieee (constantDelay_ieee (Finite 300)) ^^ 3)
     \<lparr>iterNumber_ieee = Finite 0, previousDelay_ieee = None\<rparr>) = Finite 3 \<and>
   dryRun (limitRetries 2) = Some (Inr
     [\<lparr>iterNumber = 1, previousDelay = Some 0\<rparr>,
      \<lparr>iterNumber = 2, previousDelay = Some 0\<rparr>,
      \<lparr>iterNumber = 3, previousDelay = None\<rparr>]) \<and>
   sorted (map iterNumber
     [\<lparr>iterNumber = 1, previousDelay = Some 0\<rparr>,
      \<lparr>iterNumber = 2, previousDelay = Some 0\<rparr>,
      \<lparr>iterNumber = 3, previousDelay = None\<rparr>])"
proof -
  have run: "dryRun (limitRetries 2) = Some (Inr
     [\<lparr>iterNumber = 1, previousDelay = Some 0\<rparr>,
      \<lparr>iterNumber = 2, previousDelay = Some 0\<rparr>,
      \<lparr>iterNumber = 3, previousDelay = None\<rparr>])"
    by (simp add: dryRun_def dryRun_loop.simps limitRetries_def applyPolicy_def
        startStatus_def Let_def)
  from run applyPolicy_ieee_step [of
      "\<lparr>iterNumber_ieee = Finite 0, previousDelay_ieee = None\<rparr>" 0
      "constantDelay_ieee (Finite 300)" 3 "limitRetries 2"
      "[\<lparr>iterNumber = 1, previousDelay = Some 0\<rparr>,
        \<lparr>iterNumber = 2, previousDelay = Some 0\<rparr>,
        \<lparr>iterNumber = 3, previousDelay = None\<rparr>]"]
  show ?thesis
    by (simp add: constantDelay_ieee_def)
qed

text \<open>
  C5. When the policy says "stop" somewhere along the simulation, \<open>dryRun\<close> returns,
  and it returns a sequence of statuses, not an error. The \<open>iterNumber\<close> of its
  \<open>i\<close>-th element (counted from \<open>0\<close>) is \<open>i + 1\<close>, so the counters are
  \<open>1, 2, 3, \<dots>\<close> in order. Its length is \<open>n + 1\<close>, where the decision at the status
  reached after \<open>n\<close> steps is the first "no value": the steps up to and including it.
  Its last element has no \<open>previousDelay\<close>.
\<close>

theorem dryRun_sequence:
  assumes "policy (statusAt policy k) = None"
  shows "\<exists>out n. dryRun policy = Some (Inr out) \<and>
           (\<forall>i<length out. iterNumber (out ! i) = int i + 1) \<and>
           length out = n + 1 \<and> n \<le> k \<and>
           policy (statusAt policy n) = None \<and>
           (\<forall>j<n. policy (statusAt policy j) \<noteq> None) \<and>
           previousDelay (last out) = None"
proof -
  from assms obtain n where n: "n \<le> k" "policy (statusAt policy n) = None"
      "\<forall>j<n. policy (statusAt policy j) \<noteq> None"
    using first_stop by blast
  have run: "dryRun policy = Some (Inr (trace policy n))"
    using n(2,3) by (rule dryRun_trace)
  have iter: "\<forall>i<length (trace policy n). iterNumber (trace policy n ! i) = int i + 1"
    by (simp add: trace_length trace_nth statusAt_iterNumber del: statusAt.simps)
  have len: "length (trace policy n) = n + 1"
    by (simp add: trace_length)
  have "previousDelay (last (trace policy n)) = None"
    using n(2) by (simp add: trace_last applyPolicy_def)
  with run iter len n show ?thesis by blast
qed

theorem dryRun_sequence_witness:
  "limitRetries 2 (statusAt (limitRetries 2) 4) = None \<and>
   (\<exists>out n. dryRun (limitRetries 2) = Some (Inr out) \<and>
           (\<forall>i<length out. iterNumber (out ! i) = int i + 1) \<and>
           length out = n + 1 \<and> n \<le> 4 \<and>
           limitRetries 2 (statusAt (limitRetries 2) n) = None \<and>
           (\<forall>j<n. limitRetries 2 (statusAt (limitRetries 2) j) \<noteq> None) \<and>
           previousDelay (last out) = None)"
proof -
  have stop: "limitRetries 2 (statusAt (limitRetries 2) 4) = None"
    by (simp add: limitRetries_def statusAt_iterNumber)
  from stop dryRun_sequence [of "limitRetries 2" 4] show ?thesis by blast
qed

text \<open>
  C10. Whenever \<open>dryRun\<close> returns, it returns a sequence of at least one status; the
  last one has no \<open>previousDelay\<close> and every earlier one has a delay. A policy that
  yields "no value" on the initial status gives the one-element sequence of the status
  with \<open>iterNumber = 1\<close> and no \<open>previousDelay\<close>.
\<close>

theorem dryRun_nonempty:
  "(dryRun policy = Some r \<longrightarrow>
      (\<exists>out. r = Inr out \<and> length out \<ge> 1 \<and> previousDelay (last out) = None \<and>
         (\<forall>i. Suc i < length out \<longrightarrow> previousDelay (out ! i) \<noteq> None))) \<and>
   (policy startStatus = None \<longrightarrow>
      dryRun policy = Some (Inr [\<lparr>iterNumber = 1, previousDelay = None\<rparr>]))"
proof (intro conjI impI)
  assume "dryRun policy = Some r"
  then obtain n where n: "policy (statusAt policy n) = None"
      "\<forall>j<n. policy (statusAt policy j) \<noteq> None" "r = Inr (trace policy n)"
    using dryRun_returns by blast
  have "previousDelay (last (trace policy n)) = None"
    using n(1) by (simp add: trace_last applyPolicy_def)
  moreover have "\<forall>i. Suc i < length (trace policy n) \<longrightarrow>
      previousDelay (trace policy n ! i) \<noteq> None"
    using n(2) by (simp add: trace_length trace_nth applyPolicy_def)
  moreover have "length (trace policy n) \<ge> 1"
    by (simp add: trace_length)
  ultimately show "\<exists>out. r = Inr out \<and> length out \<ge> 1 \<and> previousDelay (last out) = None \<and>
         (\<forall>i. Suc i < length out \<longrightarrow> previousDelay (out ! i) \<noteq> None)"
    using n(3) by blast
next
  assume "policy startStatus = None"
  then show "dryRun policy = Some (Inr [\<lparr>iterNumber = 1, previousDelay = None\<rparr>])"
    by (simp add: dryRun_def dryRun_loop.simps applyPolicy_def startStatus_def Let_def)
qed

theorem dryRun_nonempty_witness:
  "limitRetries 0 startStatus = None \<and>
   dryRun (limitRetries 0) = Some (Inr [\<lparr>iterNumber = 1, previousDelay = None\<rparr>]) \<and>
   dryRun (limitRetries 2) = Some (Inr
     [\<lparr>iterNumber = 1, previousDelay = Some 0\<rparr>,
      \<lparr>iterNumber = 2, previousDelay = Some 0\<rparr>,
      \<lparr>iterNumber = 3, previousDelay = None\<rparr>]) \<and>
   (\<exists>out. Inr [\<lparr>iterNumber = 1, previousDelay = Some 0\<rparr>,
      \<lparr>iterNumber = 2, previousDelay = Some 0\<rparr>,
      \<lparr>iterNumber = 3, previousDelay = None\<rparr>] = (Inr out :: error + RetryStatus list) \<and>
      length out \<ge> 1 \<and> previousDelay (last out) = None \<and>
      (\<forall>i. Suc i < length out \<longrightarrow> previousDelay (out ! i) \<noteq> None))"
proof -
  have stop: "limitRetries 0 startStatus = None"
    by (simp add: limitRetries_def startStatus_def)
  have run: "dryRun (limitRetries 2) = Some (Inr
     [\<lparr>iterNumber = 1, previousDelay = Some 0\<rparr>,
      \<lparr>iterNumber = 2, previousDelay = Some 0\<rparr>,
      \<lparr>iterNumber = 3, previousDelay = None\<rparr>])"
    by (simp add: dryRun_def dryRun_loop.simps limitRetries_def applyPolicy_def
        startStatus_def Let_def)
  from stop run dryRun_nonempty [of "limitRetries 0"] dryRun_nonempty [of "limitRetries 2"]
  show ?thesis by blast
qed

text \<open>
  C1. The policy \<open>myPolicy\<close>, built by the pipe of \<open>constantDelay 300\<close>,
  \<open>concat (exponentialBackoff 200)\<close>, \<open>concat (limitRetries 5)\<close> and
  \<open>capDelay 2000\<close>, makes \<open>dryRun\<close> return exactly the six statuses
  \<open>(1, 300)\<close>, \<open>(2, 400)\<close>, \<open>(3, 800)\<close>, \<open>(4, 1600)\<close>, \<open>(5, 2000)\<close> and
  \<open>(6, undefined)\<close>, in this order.
\<close>

theorem dryRun_myPolicy:
  "dryRun myPolicy = Some (Inr
     [\<lparr>iterNumber = 1, previousDelay = Some 300\<rparr>,
      \<lparr>iterNumber = 2, previousDelay = Some 400\<rparr>,
      \<lparr>iterNumber = 3, previousDelay = Some 800\<rparr>,
      \<lparr>iterNumber = 4, previousDelay = Some 1600\<rparr>,
      \<lparr>iterNumber = 5, previousDelay = Some 2000\<rparr>,
      \<lparr>iterNumber = 6, previousDelay = None\<rparr>])"
  by (simp add: dryRun_def dryRun_loop.simps myPolicy_def pipe_def capDelay_def concat_def
      limitRetries_def exponentialBackoff_def constantDelay_def applyPolicy_def startStatus_def
      Let_def)

end
